theory Spec2Isabelle
  imports Complex_Main "HOL-Library.AList"
begin

section \<open>Pricing and order aggregation of the CMC Patagonia order invoicing\<close>

text \<open>
  This theory embeds \<^verbatim>\<open>lib/pricing.js\<close> and the per-customer totals computed by
  \<^verbatim>\<open>main\<close> of the invoice generator, and proves properties of them.

  Conventions of the embedding.
  \<^item> A JavaScript object used as a dictionary is the list of its own properties in
    insertion order; \<^verbatim>\<open>o[k]\<close> is \<open>map_of o k\<close> (\<open>None\<close> for \<^verbatim>\<open>undefined\<close>) and
    \<^verbatim>\<open>o[k] = v\<close> is \<open>AList.update k v o\<close>, which overwrites in place or appends.
    \<^verbatim>\<open>Object.entries\<close> and \<^verbatim>\<open>Object.values\<close> enumerate in insertion order (keys that are
    array indices, which the runtime would list first, are assumed not to occur).
  \<^item> A property read also finds the members that every object inherits from
    \<^verbatim>\<open>Object.prototype\<close>. The reads of \<^verbatim>\<open>getItemPrice\<close> by product name and by tier key are
    modelled with them (\<open>js_get\<close>). The objects keyed by \<^verbatim>\<open>product|color\<close> need no such case,
    since no inherited name contains the separator. The object that \<^verbatim>\<open>groupByEmail\<close> keys
    by e-mail is modelled by its own properties only: for an e-mail that lower-cases to
    \<^verbatim>\<open>constructor\<close> or \<^verbatim>\<open>__proto__\<close> the code throws at \<^verbatim>\<open>.items.push\<close>, which the model
    does not cover.
  \<^item> Quantities and tier thresholds are natural numbers. Money is an exact rational:
    the rounding of binary floating point is outside the model. A number that
    JavaScript computes from \<^verbatim>\<open>undefined\<close> is \<open>NaN\<close>. A value that is no number of the
    model is \<open>Unmodelled\<close>, and so is every result computed from it.
  \<^item> A thrown \<^verbatim>\<open>TypeError\<close> is the left injection of a sum.
  \<^item> Row fields are strings. The fields that the code reads through \<^verbatim>\<open>?.\<close> or \<^verbatim>\<open>|| ""\<close>
    (\<^verbatim>\<open>Email\<close>, \<^verbatim>\<open>Embroidered Name\<close>, \<^verbatim>\<open>Thread Color\<close>) are options, \<open>None\<close> for a missing field;
    a missing \<^verbatim>\<open>Product\<close> is the empty string, which \<^verbatim>\<open>!product\<close> treats alike.
  \<^item> \<^verbatim>\<open>console.log\<close> output and the calls to the invoicing service are not modelled.
\<close>

subsection \<open>JavaScript values used by the code\<close>

datatype js_error = TypeError

text \<open>
  The value of a numeric expression. \<open>Unmodelled\<close> stands for what the model does not
  determine: the string that JavaScript builds when an inherited member (a function or the
  prototype object) is added to a number, and what a tier key that is no decimal numeral
  reads from an inherited member.
\<close>

datatype jsnum = Num rat | NaN | Unmodelled

fun js_add :: "jsnum \<Rightarrow> jsnum \<Rightarrow> jsnum" where
  "js_add (Num a) (Num b) = Num (a + b)"
| "js_add Unmodelled _ = Unmodelled"
| "js_add _ Unmodelled = Unmodelled"
| "js_add _ _ = NaN"

fun js_mul :: "jsnum \<Rightarrow> jsnum \<Rightarrow> jsnum" where
  "js_mul (Num a) (Num b) = Num (a * b)"
| "js_mul Unmodelled _ = Unmodelled"
| "js_mul _ Unmodelled = Unmodelled"
| "js_mul _ _ = NaN"

text \<open>\<^verbatim>\<open>Math.round\<close>: the nearest integer, halves towards plus infinity.\<close>

fun Math_round :: "jsnum \<Rightarrow> jsnum" where
  "Math_round (Num a) = Num (of_int \<lfloor>a + 1 / 2\<rfloor>)"
| "Math_round NaN = NaN"
| "Math_round Unmodelled = Unmodelled"

text \<open>
  The names of the members of \<^verbatim>\<open>Object.prototype\<close>, which a property read finds on every
  object that has no own property of that name. Each of them is a function, or for
  \<^verbatim>\<open>__proto__\<close> the prototype object: a value that is truthy and no number.
\<close>

definition Object_prototype_names :: "string list" where
  "Object_prototype_names =
     [''constructor'', ''__defineGetter__'', ''__defineSetter__'', ''hasOwnProperty'',
      ''__lookupGetter__'', ''__lookupSetter__'', ''isPrototypeOf'', ''propertyIsEnumerable'',
      ''toString'', ''valueOf'', ''__proto__'', ''toLocaleString'']"

datatype 'a js_prop = Own 'a | Inherited | Undefined

text \<open>The read \<^verbatim>\<open>obj[k]\<close> on an object given by its own properties.\<close>

definition js_get :: "(string \<times> 'a) list \<Rightarrow> string \<Rightarrow> 'a js_prop" where
  "js_get obj k =
     (case map_of obj k of
        Some v \<Rightarrow> Own v
      | None \<Rightarrow> if k \<in> set Object_prototype_names then Inherited else Undefined)"

text \<open>
  \<^verbatim>\<open>Number.prototype.toString\<close> on a non-negative integer: its decimal digits (the runtime
  switches to exponent notation from \<open>10\<^sup>2\<^sup>1\<close> on, far above any quantity).
\<close>

definition digit_char :: "nat \<Rightarrow> char" where
  "digit_char d = char_of (48 + d)"

fun toString :: "nat \<Rightarrow> string" where
  "toString n = (if n < 10 then [digit_char n] else toString (n div 10) @ [digit_char (n mod 10)])"

declare toString.simps [simp del]

text \<open>Reading a decimal identifier back as a number (what \<^verbatim>\<open>Number(tierKey)\<close> gives).\<close>

definition digit_val :: "char \<Rightarrow> nat" where
  "digit_val c = of_char c - 48"

definition of_decimal :: "string \<Rightarrow> nat" where
  "of_decimal s = foldl (\<lambda>n c. 10 * n + digit_val c) 0 s"

text \<open>A decimal numeral: a non-empty string of digits.\<close>

definition is_digit :: "char \<Rightarrow> bool" where
  "is_digit c = (48 \<le> (of_char c :: nat) \<and> (of_char c :: nat) \<le> 57)"

definition is_numeral :: "string \<Rightarrow> bool" where
  "is_numeral s = (s \<noteq> [] \<and> list_all is_digit s)"



subsection \<open>Data model\<close>

record tier =
  minQty :: nat
  label :: string

record row =
  Name :: string
  Phone :: string
  Email :: "string option"
  Product :: string
  Style :: string
  Size :: string
  Color :: string
  Logo :: string
  Embroidered_Name :: "string option"
  Thread_Color :: "string option"

record item =
  product :: string
  style :: string
  size_of_item :: string
  color :: string
  logo :: string
  embroideredName :: string
  threadColor :: string

record customer =
  name :: string
  phone :: string
  email :: string
  items :: "item list"

record pricing =
  tiers :: "tier list"
  products :: "(string \<times> (string \<times> rat) list) list"
  embroideryFee :: rat
  logoFee :: "rat option"
  foldingFee :: "rat option"
  taxRate :: rat
  currency :: string

record priced =
  price :: jsnum
  tierKey :: string

record filtered =
  eligible :: "(string \<times> nat) list"
  excluded :: "(string \<times> nat) list"

subsection \<open>Colour normalisation and counting\<close>

definition GRAY_COLORS :: "string list" where
  "GRAY_COLORS = [''Birch White'', ''Stonewash'']"

definition normalizeColor :: "string \<Rightarrow> string" where
  "normalizeColor c = (if c \<in> set GRAY_COLORS then ''Gray'' else c)"

text \<open>The template string \<^verbatim>\<open>`${product}|${color}`\<close>.\<close>

definition combo_key :: "string \<Rightarrow> string \<Rightarrow> string" where
  "combo_key p c = p @ ''|'' @ c"

text \<open>\<^verbatim>\<open>x || 0\<close> on a count that may be \<^verbatim>\<open>undefined\<close>.\<close>

definition count_or_zero :: "nat option \<Rightarrow> nat" where
  "count_or_zero v = (case v of None \<Rightarrow> 0 | Some n \<Rightarrow> n)"

fun count_loop :: "row list \<Rightarrow> (string \<times> nat) list \<Rightarrow> (string \<times> nat) list" where
  "count_loop [] counts = counts"
| "count_loop (r # rs) counts =
     (if Product r = [] then count_loop rs counts
      else let key = combo_key (Product r) (normalizeColor (Color r))
           in count_loop rs (AList.update key (count_or_zero (map_of counts key) + 1) counts))"

definition countByProductColor :: "row list \<Rightarrow> (string \<times> nat) list" where
  "countByProductColor rows = count_loop rows []"

subsection \<open>Tier resolution\<close>

text \<open>The \<^verbatim>\<open>for\<close> loop of \<^verbatim>\<open>getPricingTier\<close> with its early return; \<open>None\<close> when it falls through.\<close>

fun tier_loop :: "nat \<Rightarrow> tier list \<Rightarrow> string option" where
  "tier_loop qty [] = None"
| "tier_loop qty (t # ts) =
     (if qty \<ge> minQty t then Some (toString (minQty t)) else tier_loop qty ts)"

text \<open>
  After the loop the code reads \<^verbatim>\<open>tiers[tiers.length - 1].minQty\<close>; on an empty list that is
  a property read on \<^verbatim>\<open>undefined\<close>, which throws.
\<close>

definition getPricingTier :: "nat \<Rightarrow> tier list \<Rightarrow> js_error + string" where
  "getPricingTier qty ts =
     (case tier_loop qty ts of
        Some k \<Rightarrow> Inr k
      | None \<Rightarrow> (if ts = [] then Inl TypeError
                 else Inr (toString (minQty (ts ! (length ts - 1))))))"

fun buildTierMap_loop ::
  "(string \<times> nat) list \<Rightarrow> tier list \<Rightarrow> (string \<times> string) list \<Rightarrow> js_error + (string \<times> string) list"
where
  "buildTierMap_loop [] ts tierMap = Inr tierMap"
| "buildTierMap_loop ((key, n) # es) ts tierMap =
     (case getPricingTier n ts of
        Inl e \<Rightarrow> Inl e
      | Inr k \<Rightarrow> buildTierMap_loop es ts (AList.update key k tierMap))"

definition buildTierMap :: "(string \<times> nat) list \<Rightarrow> tier list \<Rightarrow> js_error + (string \<times> string) list" where
  "buildTierMap productColorCounts ts = buildTierMap_loop productColorCounts ts []"

text \<open>Tiers sorted in descending order of \<open>minQty\<close>.\<close>

definition sorted_desc :: "tier list \<Rightarrow> bool" where
  "sorted_desc ts = sorted_wrt (\<lambda>a b. minQty b \<le> minQty a) ts"

subsection \<open>Price of one item\<close>

text \<open>\<^verbatim>\<open>pricing.logoFee || 0\<close>: a fee that is not configured counts as zero.\<close>

definition fee_or_zero :: "rat option \<Rightarrow> rat" where
  "fee_or_zero v = (case v of None \<Rightarrow> 0 | Some x \<Rightarrow> x)"

text \<open>An own table entry used in an addition: \<^verbatim>\<open>undefined\<close> converts to \<open>NaN\<close>.\<close>

definition num_of :: "rat option \<Rightarrow> jsnum" where
  "num_of v = (case v of None \<Rightarrow> NaN | Some x \<Rightarrow> Num x)"

text \<open>
  \<^verbatim>\<open>productPricing[tierKey]\<close> as it enters the addition. On a price table the read gives the
  own entry, \<^verbatim>\<open>undefined\<close>, or an inherited member. When \<^verbatim>\<open>productPricing\<close> is itself an
  inherited member, a decimal numeral names none of its properties and reads \<^verbatim>\<open>undefined\<close>;
  other tier keys are not modelled there. The last case does not arise: \<^verbatim>\<open>getItemPrice\<close> has
  returned before.
\<close>

definition base_price :: "(string \<times> rat) list js_prop \<Rightarrow> string \<Rightarrow> jsnum" where
  "base_price productPricing tk =
     (case productPricing of
        Own tbl \<Rightarrow>
          (case js_get tbl tk of Own p \<Rightarrow> Num p | Inherited \<Rightarrow> Unmodelled | Undefined \<Rightarrow> NaN)
      | Inherited \<Rightarrow> (if is_numeral tk then NaN else Unmodelled)
      | Undefined \<Rightarrow> NaN)"

text \<open>\<^verbatim>\<open>tierMap[key] || "6"\<close>: the default applies to a missing entry and to the empty string.\<close>

definition tier_or_default :: "string option \<Rightarrow> string" where
  "tier_or_default v = (case v of None \<Rightarrow> ''6'' | Some k \<Rightarrow> if k = [] then ''6'' else k)"

text \<open>
  \<^verbatim>\<open>!productPricing\<close> holds only for \<^verbatim>\<open>undefined\<close>: a price table and an inherited member are
  both truthy.
\<close>

definition getItemPrice :: "item \<Rightarrow> (string \<times> string) list \<Rightarrow> pricing \<Rightarrow> priced option" where
  "getItemPrice it tierMap pr =
     (let productPricing = js_get (products pr) (product it)
      in if productPricing = Undefined then None
         else
          let c = normalizeColor (color it);
              key = combo_key (product it) c;
              tk = tier_or_default (map_of tierMap key);
              basePrice = base_price productPricing tk;
              embFee = (if embroideredName it \<noteq> [] then embroideryFee pr else 0);
              lFee = fee_or_zero (logoFee pr);
              fFee = fee_or_zero (foldingFee pr)
          in Some \<lparr>price = js_add (js_add (js_add basePrice (Num embFee)) (Num lFee)) (Num fFee),
                   tierKey = tk\<rparr>)"

subsection \<open>Grouping rows by customer\<close>

text \<open>\<^verbatim>\<open>x || ""\<close> on a field that may be missing.\<close>

definition string_or_empty :: "string option \<Rightarrow> string" where
  "string_or_empty v = (case v of None \<Rightarrow> [] | Some s \<Rightarrow> s)"

definition item_of_row :: "row \<Rightarrow> item" where
  "item_of_row r =
     \<lparr>product = Product r, style = Style r, size_of_item = Size r, color = Color r, logo = Logo r,
      embroideredName = string_or_empty (Embroidered_Name r),
      threadColor = string_or_empty (Thread_Color r)\<rparr>"


text \<open>\<^verbatim>\<open>if (!grouped[email]) grouped[email] = {name, phone, email, items: []}\<close>\<close>

definition ensure_customer :: "string \<Rightarrow> row \<Rightarrow> (string \<times> customer) list \<Rightarrow> (string \<times> customer) list" where
  "ensure_customer e r grouped =
     (case map_of grouped e of
        None \<Rightarrow> AList.update e \<lparr>name = Name r, phone = Phone r, email = e, items = []\<rparr> grouped
      | Some c \<Rightarrow> grouped)"

text \<open>\<^verbatim>\<open>grouped[email].items.push(item)\<close>: the record stored under the key is changed in place.\<close>

definition push_item :: "string \<Rightarrow> item \<Rightarrow> (string \<times> customer) list \<Rightarrow> (string \<times> customer) list" where
  "push_item e it grouped = AList.map_entry e (\<lambda>c. c\<lparr>items := items c @ [it]\<rparr>) grouped"



subsection \<open>Minimum-quantity filter\<close>

fun filter_loop :: "(string \<times> nat) list \<Rightarrow> nat \<Rightarrow> filtered \<Rightarrow> filtered" where
  "filter_loop [] minQuantity acc = acc"
| "filter_loop ((key, n) # es) minQuantity acc =
     (if n \<ge> minQuantity
      then filter_loop es minQuantity (acc\<lparr>eligible := AList.update key n (eligible acc)\<rparr>)
      else filter_loop es minQuantity (acc\<lparr>excluded := AList.update key n (excluded acc)\<rparr>))"

definition filterByMinimum :: "(string \<times> nat) list \<Rightarrow> nat \<Rightarrow> filtered" where
  "filterByMinimum productColorCounts minQuantity =
     filter_loop productColorCounts minQuantity \<lparr>eligible = [], excluded = []\<rparr>"

subsection \<open>Tax, processing fee and description\<close>

definition calculateTax :: "jsnum \<Rightarrow> jsnum \<Rightarrow> jsnum" where
  "calculateTax subtotal rate = js_mul subtotal rate"

definition calculateStripeFee :: "jsnum \<Rightarrow> jsnum" where
  "calculateStripeFee subtotal = js_add (js_mul subtotal (Num (29 / 1000))) (Num (3 / 10))"

definition newline :: string where
  "newline = [CHR 0x0A]"

definition dquote :: string where
  "dquote = [CHR 0x22]"

definition formatItemDescription :: "item \<Rightarrow> string" where
  "formatItemDescription it =
     (let desc = product it @ '' - '' @ style it @ '' '' @ size_of_item it @ '' ('' @ color it @ '')'';
          desc = desc @ newline @ ''Logo: '' @ logo it
      in if embroideredName it \<noteq> []
         then desc @ newline @ ''Embroidered: '' @ dquote @ embroideredName it @ dquote @
              '' ('' @ threadColor it @ '' thread)''
         else desc)"

subsection \<open>The per-customer totals of \<^verbatim>\<open>main\<close>\<close>

definition MIN_QUANTITY :: nat where
  "MIN_QUANTITY = 6"

text \<open>The choice between the filter and the \<^verbatim>\<open>--no-min\<close> bypass.\<close>

definition select_combos :: "bool \<Rightarrow> (string \<times> nat) list \<Rightarrow> filtered" where
  "select_combos ignoreMinimum productColorCounts =
     (if ignoreMinimum then \<lparr>eligible = productColorCounts, excluded = []\<rparr>
      else filterByMinimum productColorCounts MIN_QUANTITY)"

record line_item =
  description :: string
  amount :: jsnum
  line_currency :: string
  taxable :: bool

record item_acc =
  lineItems :: "line_item list"
  customerTotal :: jsnum
  excludedCount :: nat

text \<open>
  The loop over \<^verbatim>\<open>customer.items\<close>. \<^verbatim>\<open>!eligibleCombos[comboKey]\<close> holds for a missing key and
  for a count of zero.
\<close>

fun items_loop ::
  "item list \<Rightarrow> (string \<times> nat) list \<Rightarrow> (string \<times> string) list \<Rightarrow> pricing \<Rightarrow> item_acc \<Rightarrow> item_acc"
where
  "items_loop [] eligibleCombos tierMap pr acc = acc"
| "items_loop (it # its) eligibleCombos tierMap pr acc =
     (if count_or_zero (map_of eligibleCombos (combo_key (product it) (normalizeColor (color it)))) = 0
      then items_loop its eligibleCombos tierMap pr (acc\<lparr>excludedCount := excludedCount acc + 1\<rparr>)
      else (case getItemPrice it tierMap pr of
              None \<Rightarrow> items_loop its eligibleCombos tierMap pr acc
            | Some result \<Rightarrow>
                items_loop its eligibleCombos tierMap pr
                  (acc\<lparr>customerTotal := js_add (customerTotal acc) (price result),
                       lineItems := lineItems acc @
                         [\<lparr>description = formatItemDescription it,
                           amount = Math_round (js_mul (price result) (Num 100)),
                           line_currency = currency pr, taxable = True\<rparr>]\<rparr>)))"

record invoice =
  invoice_lines :: "line_item list"
  subtotal :: jsnum
  tax :: jsnum
  stripeFee :: jsnum
  orderTotal :: jsnum

text \<open>One customer: \<open>None\<close> when the customer is skipped for having no line item.\<close>

definition customer_invoice ::
  "(string \<times> nat) list \<Rightarrow> (string \<times> string) list \<Rightarrow> pricing \<Rightarrow> customer \<Rightarrow> invoice option"
where
  "customer_invoice eligibleCombos tierMap pr cust =
     (let acc = items_loop (items cust) eligibleCombos tierMap pr
                  \<lparr>lineItems = [], customerTotal = Num 0, excludedCount = 0\<rparr>
      in if lineItems acc = [] then None
         else let t = calculateTax (customerTotal acc) (Num (taxRate pr));
                  fee = calculateStripeFee (js_add (customerTotal acc) t);
                  total = js_add (js_add (customerTotal acc) t) fee
              in Some \<lparr>invoice_lines = lineItems acc @
                          [\<lparr>description = ''Payment processing fee (2.9% + $0.30)'',
                            amount = Math_round (js_mul fee (Num 100)),
                            line_currency = currency pr, taxable = False\<rparr>],
                        subtotal = customerTotal acc, tax = t, stripeFee = fee, orderTotal = total\<rparr>)"

text \<open>The items of a customer that reach the subtotal: in an eligible combination and priced.\<close>

definition item_eligible :: "(string \<times> nat) list \<Rightarrow> item \<Rightarrow> bool" where
  "item_eligible eligibleCombos it =
     (count_or_zero (map_of eligibleCombos (combo_key (product it) (normalizeColor (color it)))) \<noteq> 0)"

definition priced_items :: "(string \<times> nat) list \<Rightarrow> (string \<times> string) list \<Rightarrow> pricing \<Rightarrow> item list \<Rightarrow> priced list" where
  "priced_items eligibleCombos tierMap pr its =
     List.map_filter (\<lambda>it. getItemPrice it tierMap pr) (filter (item_eligible eligibleCombos) its)"

subsection \<open>The embroidery test of the order summary\<close>

text \<open>
  \<^verbatim>\<open>updateSummary\<close> of the spreadsheet script counts a row as embroidered by
  \<^verbatim>\<open>embName && embName.toString().trim()\<close>. \<^verbatim>\<open>trim\<close> is modelled on the ASCII white space
  (tab, line feed, vertical tab, form feed, carriage return, space).
\<close>

definition is_space :: "char \<Rightarrow> bool" where
  "is_space c = ((of_char c :: nat) \<in> {9, 10, 11, 12, 13, 32})"

definition trim :: "string \<Rightarrow> string" where
  "trim s = rev (dropWhile is_space (rev (dropWhile is_space s)))"

definition summary_counts_embroidery :: "string \<Rightarrow> bool" where
  "summary_counts_embroidery embName = (embName \<noteq> [] \<and> trim embName \<noteq> [])"

subsection \<open>The configuration and rows of the repository's tests\<close>

definition test_tiers :: "tier list" where
  "test_tiers =
     [\<lparr>minQty = 72, label = ''72+ pcs''\<rparr>, \<lparr>minQty = 50, label = ''50-71 pcs''\<rparr>,
      \<lparr>minQty = 18, label = ''18-49 pcs''\<rparr>, \<lparr>minQty = 6, label = ''6-17 pcs''\<rparr>]"

text \<open>The mock configuration of the tests, with the tax rate 0.0725 of the spreadsheet script.\<close>

definition test_pricing :: pricing where
  "test_pricing =
     \<lparr>tiers = test_tiers,
      products =
        [(''Better Sweater Jacket'', [(''6'', 175), (''18'', 17358 / 100), (''50'', 16268 / 100), (''72'', 15968 / 100)]),
         (''Better Sweater Vest'', [(''6'', 13288 / 100), (''18'', 13128 / 100), (''50'', 12358 / 100), (''72'', 11988 / 100)]),
         (''Better Sweater Quarter Zip'', [(''6'', 155), (''18'', 152), (''50'', 14268 / 100), (''72'', 13958 / 100)])],
      embroideryFee = 8, logoFee = Some 10, foldingFee = Some (3 / 4),
      taxRate = 725 / 10000, currency = ''usd''\<rparr>"

definition jacket_item :: "string \<Rightarrow> string \<Rightarrow> item" where
  "jacket_item c emb =
     \<lparr>product = ''Better Sweater Jacket'', style = ''Mens'', size_of_item = ''L'', color = c,
      logo = ''Original CMC Logo'', embroideredName = emb, threadColor = ''White''\<rparr>"

definition jacket_row :: "string \<Rightarrow> string \<Rightarrow> string \<Rightarrow> string \<Rightarrow> row" where
  "jacket_row n e c emb =
     \<lparr>Name = n, Phone = ''555-1234'', Email = Some e, Product = ''Better Sweater Jacket'',
      Style = ''Mens'', Size = ''L'', Color = c, Logo = ''Original CMC Logo'',
      Embroidered_Name = Some emb, Thread_Color = Some ''White''\<rparr>"

definition test_counts :: "(string \<times> nat) list" where
  "test_counts = [(''Jacket|Black'', 10), (''Jacket|Navy'', 3), (''Vest|Black'', 6), (''Vest|Gray'', 5)]"

text \<open>The scenario of two gray variants, five rows each.\<close>

definition gray_rows :: "row list" where
  "gray_rows = replicate 5 (jacket_row ''Ann'' ''ann@test.com'' ''Birch White'' '''')
             @ replicate 5 (jacket_row ''Bob'' ''bob@test.com'' ''Stonewash'' '''')"

text \<open>Nine rows of each gray variant: the combined count reaches the tier of 18.\<close>

definition gray_rows_18 :: "row list" where
  "gray_rows_18 = replicate 9 (jacket_row ''Ann'' ''ann@test.com'' ''Birch White'' '''')
                @ replicate 9 (jacket_row ''Bob'' ''bob@test.com'' ''Stonewash'' '''')"

text \<open>The two gray variants again, the first with a blank embroidered name, the second with none.\<close>

definition blank_gray_rows :: "row list" where
  "blank_gray_rows = replicate 5 (jacket_row ''Ann'' ''ann@test.com'' ''Birch White'' '' '')
                   @ replicate 5 (jacket_row ''Bob'' ''bob@test.com'' ''Stonewash'' '''')"

text \<open>A configuration whose floor tier is not 6.\<close>

definition other_pricing :: pricing where
  "other_pricing =
     \<lparr>tiers = [\<lparr>minQty = 24, label = ''24+ pcs''\<rparr>, \<lparr>minQty = 12, label = ''12-23 pcs''\<rparr>],
      products = [(''Better Sweater Jacket'', [(''12'', 175), (''24'', 170)])],
      embroideryFee = 8, logoFee = Some 10, foldingFee = Some (3 / 4),
      taxRate = 725 / 10000, currency = ''usd''\<rparr>"

text \<open>A customer with a subtotal of 300.00: two eligible items at 150.00 and one excluded item.\<close>

definition flat_pricing :: pricing where
  "flat_pricing =
     \<lparr>tiers = test_tiers, products = [(''Jacket'', [(''6'', 150)])],
      embroideryFee = 8, logoFee = Some 0, foldingFee = Some 0,
      taxRate = 725 / 10000, currency = ''usd''\<rparr>"

definition flat_customer :: customer where
  "flat_customer =
     \<lparr>name = ''John'', phone = ''555-1234'', email = ''john@test.com'',
      items = [(jacket_item ''Black'' '''')\<lparr>product := ''Jacket''\<rparr>,
               (jacket_item ''Black'' '''')\<lparr>product := ''Jacket''\<rparr>,
               (jacket_item ''Navy'' '''')\<lparr>product := ''Jacket''\<rparr>]\<rparr>"

section \<open>Properties\<close>

subsection \<open>Decimal identifiers\<close>

lemma digit_val_digit_char: "d < 10 \<Longrightarrow> digit_val (digit_char d) = d"
  by (simp add: digit_val_def digit_char_def)

lemma of_decimal_snoc: "of_decimal (s @ [c]) = 10 * of_decimal s + digit_val c"
  by (simp add: of_decimal_def)

lemma of_decimal_toString: "of_decimal (toString n) = n"
proof (induction n rule: toString.induct)
  case (1 n)
  show ?case
  proof (cases "n < 10")
    case True
    then show ?thesis
      by (simp add: toString.simps [of n] of_decimal_def digit_val_digit_char)
  next
    case False
    then show ?thesis
      using 1 by (simp add: toString.simps [of n] of_decimal_snoc digit_val_digit_char)
  qed
qed

lemma toString_inj: "toString a = toString b \<Longrightarrow> a = b"
  by (metis of_decimal_toString)

lemma toString_values:
  "toString 6 = ''6''" "toString 18 = ''18''" "toString 50 = ''50''" "toString 72 = ''72''"
  by code_simp+

lemma test_tiers_ok: "test_tiers \<noteq> [] \<and> sorted_desc test_tiers"
  by (simp add: test_tiers_def sorted_desc_def)

subsection \<open>Tier resolution\<close>

lemma tier_loop_find:
  "tier_loop q ts = map_option (\<lambda>t. toString (minQty t)) (find (\<lambda>t. minQty t \<le> q) ts)"
  by (induction ts) auto

lemma sorted_desc_last_Min:
  assumes "ts \<noteq> []" and "sorted_desc ts"
  shows "minQty (last ts) = Min (minQty ` set ts)"
proof -
  have "\<forall>t \<in> set ts. minQty (last ts) \<le> minQty t"
    using assms
  proof (induction ts)
    case Nil
    then show ?case by simp
  next
    case (Cons a ts)
    then show ?case by (cases "ts = []") (auto simp: sorted_desc_def)
  qed
  moreover have "last ts \<in> set ts"
    using assms(1) by simp
  ultimately show ?thesis
    by (intro Min_eqI [symmetric]) auto
qed

lemma getPricingTier_find:
  assumes "ts \<noteq> []"
  shows "getPricingTier q ts =
    Inr (toString (case find (\<lambda>t. minQty t \<le> q) ts of Some t \<Rightarrow> minQty t | None \<Rightarrow> minQty (last ts)))"
  using assms by (simp add: getPricingTier_def tier_loop_find last_conv_nth split: option.splits)

lemma resolved_tier_in_list:
  assumes "ts \<noteq> []"
  shows "(case find (\<lambda>t. minQty t \<le> q) ts of Some t \<Rightarrow> t | None \<Rightarrow> last ts) \<in> set ts"
proof (cases "find (\<lambda>t. minQty t \<le> q) ts")
  case None
  then show ?thesis using assms by simp
next
  case (Some t)
  then obtain i where "i < length ts" and "ts ! i = t"
    unfolding find_Some_iff by blast
  then show ?thesis using Some by auto
qed

text \<open>
  C2. On a non-empty tier list sorted in descending order of \<open>minQty\<close>, \<open>getPricingTier\<close>
  returns the identifier of the first tier of the list whose \<open>minQty\<close> is at most the
  quantity; when no tier matches it returns the identifier of the tier with the smallest
  \<open>minQty\<close> instead of failing. In both cases the result is the identifier of a tier of
  the list.
\<close>

theorem getPricingTier_first_match_or_floor:
  assumes "ts \<noteq> []" and "sorted_desc ts"
  shows "getPricingTier q ts =
           Inr (toString (case find (\<lambda>t. minQty t \<le> q) ts of
                            Some t \<Rightarrow> minQty t
                          | None \<Rightarrow> Min (minQty ` set ts)))
         \<and> (\<exists>t \<in> set ts. getPricingTier q ts = Inr (toString (minQty t)))"
proof -
  have a: "getPricingTier q ts =
    Inr (toString (case find (\<lambda>t. minQty t \<le> q) ts of Some t \<Rightarrow> minQty t | None \<Rightarrow> minQty (last ts)))"
    by (rule getPricingTier_find [OF assms(1)])
  have c: "minQty (last ts) = Min (minQty ` set ts)"
    by (rule sorted_desc_last_Min [OF assms])
  have "getPricingTier q ts =
          Inr (toString (minQty (case find (\<lambda>t. minQty t \<le> q) ts of Some t \<Rightarrow> t | None \<Rightarrow> last ts)))"
    using a by (simp split: option.splits)
  then have "\<exists>t \<in> set ts. getPricingTier q ts = Inr (toString (minQty t))"
    using resolved_tier_in_list [OF assms(1), of q] by blast
  moreover have "getPricingTier q ts =
           Inr (toString (case find (\<lambda>t. minQty t \<le> q) ts of
                            Some t \<Rightarrow> minQty t
                          | None \<Rightarrow> Min (minQty ` set ts)))"
    using a c by (simp split: option.splits)
  ultimately show ?thesis by blast
qed

theorem getPricingTier_first_match_or_floor_witness:
  "getPricingTier 30 test_tiers = Inr ''18'' \<and> getPricingTier 3 test_tiers = Inr ''6''"
  using getPricingTier_first_match_or_floor [of test_tiers 30]
        getPricingTier_first_match_or_floor [of test_tiers 3] test_tiers_ok
  by (simp add: test_tiers_def toString_values)

lemma sorted_desc_head_max:
  "sorted_desc (a # ts) \<Longrightarrow> t \<in> set (a # ts) \<Longrightarrow> minQty t \<le> minQty a"
  by (auto simp: sorted_desc_def)

lemma sorted_desc_tail: "sorted_desc (a # ts) \<Longrightarrow> sorted_desc ts"
  by (simp add: sorted_desc_def)

lemma resolved_mono:
  assumes "sorted_desc ts" and "ts \<noteq> []" and "q2 \<le> q1"
  shows "minQty (case find (\<lambda>t. minQty t \<le> q2) ts of Some t \<Rightarrow> t | None \<Rightarrow> last ts)
       \<le> minQty (case find (\<lambda>t. minQty t \<le> q1) ts of Some t \<Rightarrow> t | None \<Rightarrow> last ts)"
  using assms
proof (induction ts)
  case Nil
  then show ?case by simp
next
  case (Cons a ts)
  show ?case
  proof (cases "minQty a \<le> q1")
    case True
    have "(case find (\<lambda>t. minQty t \<le> q2) (a # ts) of Some t \<Rightarrow> t | None \<Rightarrow> last (a # ts)) \<in> set (a # ts)"
      by (rule resolved_tier_in_list) simp
    then show ?thesis
      using True sorted_desc_head_max [OF Cons.prems(1)] by simp
  next
    case False
    then have f2: "\<not> minQty a \<le> q2" using Cons.prems(3) by simp
    show ?thesis
    proof (cases "ts = []")
      case True
      then show ?thesis using False f2 by simp
    next
      case nonempty: False
      then show ?thesis
        using False f2 Cons.IH [OF sorted_desc_tail [OF Cons.prems(1)] nonempty Cons.prems(3)]
        by (simp split: option.splits)
    qed
  qed
qed

lemma getPricingTier_resolved:
  assumes "ts \<noteq> []"
  shows "getPricingTier q ts =
    Inr (toString (minQty (case find (\<lambda>t. minQty t \<le> q) ts of Some t \<Rightarrow> t | None \<Rightarrow> last ts)))"
  using getPricingTier_find [OF assms, of q] by (simp split: option.splits)

text \<open>
  C6. On a non-empty tier list sorted in descending order of \<open>minQty\<close>, \<open>getPricingTier\<close>
  is monotone in the quantity: a larger quantity resolves to a tier identifier whose
  number is at least that of the smaller quantity.
\<close>

theorem getPricingTier_monotone:
  assumes "sorted_desc ts" and "ts \<noteq> []" and "q2 \<le> q1"
  shows "\<exists>k1 k2. getPricingTier q1 ts = Inr k1 \<and> getPricingTier q2 ts = Inr k2
                 \<and> of_decimal k2 \<le> of_decimal k1"
  using resolved_mono [OF assms]
  by (simp add: getPricingTier_resolved [OF assms(2)] of_decimal_toString)

theorem getPricingTier_monotone_witness:
  "getPricingTier 60 test_tiers = Inr ''50'' \<and> getPricingTier 20 test_tiers = Inr ''18''
   \<and> of_decimal ''18'' \<le> of_decimal ''50''"
  using getPricingTier_monotone [of test_tiers 20 60] test_tiers_ok
  by (simp add: getPricingTier_def test_tiers_def toString_values)

subsection \<open>Minimum-quantity filter\<close>

lemma update_new_key: "k \<notin> fst ` set xs \<Longrightarrow> AList.update k v xs = xs @ [(k, v)]"
  by (induction xs) auto

lemma filter_loop_distinct:
  assumes "distinct (map fst es)"
    and "fst ` set es \<inter> (fst ` set (eligible acc) \<union> fst ` set (excluded acc)) = {}"
  shows "filter_loop es m acc =
           \<lparr>eligible = eligible acc @ filter (\<lambda>(k, n). m \<le> n) es,
            excluded = excluded acc @ filter (\<lambda>(k, n). \<not> m \<le> n) es\<rparr>"
  using assms
proof (induction es m acc rule: filter_loop.induct)
  case (1 m acc)
  then show ?case by simp
next
  case (2 key n es m acc)
  have k1: "key \<notin> fst ` set (eligible acc)" and k2: "key \<notin> fst ` set (excluded acc)"
    using "2.prems"(2) by auto
  have d: "distinct (map fst es)" and kes: "key \<notin> fst ` set es"
    using "2.prems"(1) by auto
  show ?case
  proof (cases "m \<le> n")
    case True
    have "fst ` set es \<inter> (fst ` set (eligible (acc\<lparr>eligible := AList.update key n (eligible acc)\<rparr>))
            \<union> fst ` set (excluded (acc\<lparr>eligible := AList.update key n (eligible acc)\<rparr>))) = {}"
      using "2.prems"(2) kes by (auto simp: update_new_key [OF k1])
    from "2.IH"(1) [OF True d this] True show ?thesis
      by (simp add: update_new_key [OF k1])
  next
    case False
    have "fst ` set es \<inter> (fst ` set (eligible (acc\<lparr>excluded := AList.update key n (excluded acc)\<rparr>))
            \<union> fst ` set (excluded (acc\<lparr>excluded := AList.update key n (excluded acc)\<rparr>))) = {}"
      using "2.prems"(2) kes by (auto simp: update_new_key [OF k2])
    from "2.IH"(2) [OF False d this] False show ?thesis
      by (simp add: update_new_key [OF k2])
  qed
qed

lemma filterByMinimum_distinct:
  assumes "distinct (map fst counts)"
  shows "filterByMinimum counts m =
           \<lparr>eligible = filter (\<lambda>(k, n). m \<le> n) counts,
            excluded = filter (\<lambda>(k, n). \<not> m \<le> n) counts\<rparr>"
  using filter_loop_distinct [OF assms, of "\<lparr>eligible = [], excluded = []\<rparr>" m]
  by (simp add: filterByMinimum_def)

lemma map_of_filter_distinct:
  assumes "distinct (map fst xs)"
  shows "map_of (filter (\<lambda>(k, n). P n) xs) k =
           (case map_of xs k of None \<Rightarrow> None | Some n \<Rightarrow> if P n then Some n else None)"
  using assms
proof (induction xs)
  case Nil
  then show ?case by simp
next
  case (Cons a xs)
  obtain k0 n0 where a: "a = (k0, n0)" by (cases a)
  have "map_of (filter (\<lambda>(k, n). P n) xs) k0 = None"
    using Cons.prems a by (auto simp: map_of_eq_None_iff)
  then show ?case using Cons a by (auto split: option.splits)
qed

text \<open>
  C5. \<open>filterByMinimum\<close> partitions the counts: a key with count \<open>n\<close> is in \<open>eligible\<close>
  (with its count) exactly when \<open>n\<close> is at least the minimum and in \<open>excluded\<close> otherwise,
  keys absent from the input are in neither, and so every key of the input is in exactly
  one of the two outputs. The keys of the input object are distinct.
\<close>

theorem filterByMinimum_partition:
  assumes "distinct (map fst counts)"
  shows "map_of (eligible (filterByMinimum counts m)) k =
           (case map_of counts k of None \<Rightarrow> None | Some n \<Rightarrow> if m \<le> n then Some n else None)
       \<and> map_of (excluded (filterByMinimum counts m)) k =
           (case map_of counts k of None \<Rightarrow> None | Some n \<Rightarrow> if m \<le> n then None else Some n)
       \<and> (k \<in> fst ` set counts \<longleftrightarrow>
           (k \<in> fst ` set (eligible (filterByMinimum counts m)))
            \<noteq> (k \<in> fst ` set (excluded (filterByMinimum counts m))))"
proof -
  have e: "map_of (eligible (filterByMinimum counts m)) k =
           (case map_of counts k of None \<Rightarrow> None | Some n \<Rightarrow> if m \<le> n then Some n else None)"
    by (simp add: filterByMinimum_distinct [OF assms] map_of_filter_distinct [OF assms])
  have x: "map_of (excluded (filterByMinimum counts m)) k =
           (case map_of counts k of None \<Rightarrow> None | Some n \<Rightarrow> if m \<le> n then None else Some n)"
    using map_of_filter_distinct [OF assms, of "\<lambda>n. \<not> m \<le> n" k]
    by (simp add: filterByMinimum_distinct [OF assms] split: option.splits)
  have "(k \<in> fst ` set counts) = (map_of counts k \<noteq> None)"
    by (simp add: map_of_eq_None_iff)
  moreover have "(k \<in> fst ` set (eligible (filterByMinimum counts m))) = (map_of (eligible (filterByMinimum counts m)) k \<noteq> None)"
    by (simp add: map_of_eq_None_iff)
  moreover have "(k \<in> fst ` set (excluded (filterByMinimum counts m))) = (map_of (excluded (filterByMinimum counts m)) k \<noteq> None)"
    by (simp add: map_of_eq_None_iff)
  ultimately show ?thesis
    using e x by (auto split: option.splits if_splits)
qed

theorem filterByMinimum_partition_witness:
  "map_of (eligible (filterByMinimum test_counts 6)) ''Jacket|Navy'' = None
   \<and> map_of (excluded (filterByMinimum test_counts 6)) ''Jacket|Navy'' = Some 3
   \<and> map_of (eligible (filterByMinimum test_counts 6)) ''Vest|Black'' = Some 6
   \<and> map_of (excluded (filterByMinimum test_counts 6)) ''Vest|Black'' = None"
  using filterByMinimum_partition [of test_counts 6 "''Jacket|Navy''"]
        filterByMinimum_partition [of test_counts 6 "''Vest|Black''"]
  by (simp add: test_counts_def)

subsection \<open>Tier map\<close>

lemma resolved_le_quantity:
  assumes "ts \<noteq> []" and "minQty (last ts) \<le> c"
  shows "minQty (case find (\<lambda>t. minQty t \<le> c) ts of Some t \<Rightarrow> t | None \<Rightarrow> last ts) \<le> c"
proof (cases "find (\<lambda>t. minQty t \<le> c) ts")
  case None
  then show ?thesis using assms by simp
next
  case (Some t)
  then have "minQty t \<le> c"
    unfolding find_Some_iff by blast
  then show ?thesis using Some by simp
qed

lemma getPricingTier_le_quantity:
  assumes "ts \<noteq> []" and "minQty (last ts) \<le> c"
  shows "\<exists>t. getPricingTier c ts = Inr t \<and> of_decimal t \<le> c"
  using resolved_le_quantity [OF assms]
  by (simp add: getPricingTier_resolved [OF assms(1)] of_decimal_toString)

lemma buildTierMap_loop_distinct:
  assumes "ts \<noteq> []" and "distinct (map fst es)"
  shows "\<exists>tm. buildTierMap_loop es ts acc = Inr tm \<and>
           (\<forall>k. map_of tm k =
              (case map_of es k of
                 None \<Rightarrow> map_of acc k
               | Some n \<Rightarrow> (case getPricingTier n ts of Inl e \<Rightarrow> None | Inr t \<Rightarrow> Some t)))"
  using assms(2)
proof (induction es arbitrary: acc)
  case Nil
  then show ?case by simp
next
  case (Cons a es)
  obtain k0 n0 where a: "a = (k0, n0)" by (cases a)
  obtain t0 where t0: "getPricingTier n0 ts = Inr t0"
    using getPricingTier_resolved [OF assms(1)] by blast
  have d: "distinct (map fst es)" and nk: "map_of es k0 = None"
    using Cons.prems a by (auto simp: map_of_eq_None_iff)
  from Cons.IH [OF d, of "AList.update k0 t0 acc"]
  obtain tm where tm: "buildTierMap_loop es ts (AList.update k0 t0 acc) = Inr tm"
    and m: "\<And>k. map_of tm k =
              (case map_of es k of
                 None \<Rightarrow> map_of (AList.update k0 t0 acc) k
               | Some n \<Rightarrow> (case getPricingTier n ts of Inl e \<Rightarrow> None | Inr t \<Rightarrow> Some t))"
    by blast
  have "buildTierMap_loop (a # es) ts acc = Inr tm"
    using a t0 tm by simp
  moreover have "map_of tm k =
              (case map_of (a # es) k of
                 None \<Rightarrow> map_of acc k
               | Some n \<Rightarrow> (case getPricingTier n ts of Inl e \<Rightarrow> None | Inr t \<Rightarrow> Some t))" for k
    using m [of k] a t0 nk by (auto simp: update_conv' split: option.splits)
  ultimately show ?case by blast
qed

text \<open>
  C7, as amended. When the minimum of the filter is at least the \<open>minQty\<close> of the last
  (floor) tier, \<open>buildTierMap\<close> over the eligible counts succeeds and every key of the tier
  map is a key of the eligible counts whose tier identifier, read as a number, is at most
  its count.
\<close>

theorem buildTierMap_tier_le_count:
  assumes "ts \<noteq> []" and "minQty (last ts) \<le> m" and "distinct (map fst counts)"
  shows "\<exists>tm. buildTierMap (eligible (filterByMinimum counts m)) ts = Inr tm \<and>
           (\<forall>k t. map_of tm k = Some t \<longrightarrow>
              (\<exists>c. map_of (eligible (filterByMinimum counts m)) k = Some c \<and> of_decimal t \<le> c))"
proof -
  let ?el = "eligible (filterByMinimum counts m)"
  have el: "?el = filter (\<lambda>(k, n). m \<le> n) counts"
    by (simp add: filterByMinimum_distinct [OF assms(3)])
  have d: "distinct (map fst ?el)"
    unfolding el using assms(3) by (rule distinct_map_filter)
  from buildTierMap_loop_distinct [OF assms(1) d, of "[]"]
  have "\<exists>tm. buildTierMap ?el ts = Inr tm \<and>
           (\<forall>k. map_of tm k =
              (case map_of ?el k of
                 None \<Rightarrow> None
               | Some n \<Rightarrow> (case getPricingTier n ts of Inl e \<Rightarrow> None | Inr t \<Rightarrow> Some t)))"
    by (simp add: buildTierMap_def cong: option.case_cong)
  then obtain tm where tm: "buildTierMap ?el ts = Inr tm"
    and m: "\<And>k. map_of tm k =
              (case map_of ?el k of
                 None \<Rightarrow> None
               | Some n \<Rightarrow> (case getPricingTier n ts of Inl e \<Rightarrow> None | Inr t \<Rightarrow> Some t))"
    by blast
  have "\<exists>c. map_of ?el k = Some c \<and> of_decimal t \<le> c" if "map_of tm k = Some t" for k t
  proof -
    from that m [of k] obtain c where c: "map_of ?el k = Some c" and g: "getPricingTier c ts = Inr t"
      by (auto split: option.splits sum.splits)
    from c have "(k, c) \<in> set ?el" by (rule map_of_SomeD)
    then have "m \<le> c" unfolding el by simp
    then have "minQty (last ts) \<le> c" using assms(2) by simp
    from getPricingTier_le_quantity [OF assms(1) this] g c show ?thesis by simp
  qed
  then show ?thesis using tm by blast
qed

theorem buildTierMap_tier_le_count_witness:
  "buildTierMap (eligible (filterByMinimum [(''Jacket|Black'', 25), (''Jacket|Navy'', 3)] 6)) test_tiers
     = Inr [(''Jacket|Black'', ''18'')] \<and> of_decimal ''18'' \<le> (25 :: nat)"
proof -
  have h: "test_tiers \<noteq> [] \<and> minQty (last test_tiers) \<le> 6
           \<and> distinct (map fst [(''Jacket|Black'', 25 :: nat), (''Jacket|Navy'', 3)])"
    by (simp add: test_tiers_def)
  have el: "eligible (filterByMinimum [(''Jacket|Black'', 25), (''Jacket|Navy'', 3)] 6)
              = [(''Jacket|Black'', 25)]"
    by (simp add: filterByMinimum_def)
  have b: "buildTierMap [(''Jacket|Black'', 25)] test_tiers = Inr [(''Jacket|Black'', ''18'')]"
    by (simp add: buildTierMap_def getPricingTier_def test_tiers_def toString_values)
  from buildTierMap_tier_le_count [of test_tiers 6 "[(''Jacket|Black'', 25), (''Jacket|Navy'', 3)]"] h
  have "\<forall>k t. map_of [(''Jacket|Black'', ''18'')] k = Some t \<longrightarrow>
              (\<exists>c. map_of [(''Jacket|Black'', 25 :: nat)] k = Some c \<and> of_decimal t \<le> c)"
    unfolding el b by simp
  then have "\<exists>c. map_of [(''Jacket|Black'', 25 :: nat)] ''Jacket|Black'' = Some c \<and> of_decimal ''18'' \<le> c"
    by (elim allE [of _ "''Jacket|Black''"] allE [of _ "''18''"]) simp
  then show ?thesis
    unfolding el b by simp
qed

text \<open>
  C7 as stated fails without that condition: in bypass mode a combination of 3 pieces is
  eligible and gets tier 6, and with a floor tier of 18 a combination of 10 pieces passes
  the minimum of 6 and gets tier 18.
\<close>

theorem buildTierMap_tier_above_count:
  "buildTierMap (eligible (select_combos True [(''Jacket|Navy'', 3)])) test_tiers = Inr [(''Jacket|Navy'', ''6'')]
   \<and> map_of (eligible (select_combos True [(''Jacket|Navy'', 3)])) ''Jacket|Navy'' = Some 3
   \<and> \<not> of_decimal ''6'' \<le> (3 :: nat)
   \<and> buildTierMap (eligible (filterByMinimum [(''Jacket|Black'', 10)] MIN_QUANTITY)) (butlast test_tiers)
        = Inr [(''Jacket|Black'', ''18'')]
   \<and> map_of (eligible (filterByMinimum [(''Jacket|Black'', 10)] MIN_QUANTITY)) ''Jacket|Black'' = Some 10
   \<and> \<not> of_decimal ''18'' \<le> (10 :: nat)"
  by (simp add: buildTierMap_def filterByMinimum_def select_combos_def MIN_QUANTITY_def
        getPricingTier_def test_tiers_def toString_values of_decimal_def digit_val_def)

subsection \<open>Inherited names\<close>

lemma is_digit_digit_char: "d < 10 \<Longrightarrow> is_digit (digit_char d)"
  by (simp add: is_digit_def digit_char_def)

lemma is_numeral_toString: "is_numeral (toString n)"
proof (induction n rule: toString.induct)
  case (1 n)
  show ?case
  proof (cases "n < 10")
    case True
    then show ?thesis
      by (simp add: toString.simps [of n] is_numeral_def is_digit_digit_char)
  next
    case False
    then show ?thesis
      using 1 by (simp add: toString.simps [of n] is_numeral_def is_digit_digit_char)
  qed
qed

lemma numeral_not_inherited: "is_numeral s \<Longrightarrow> s \<notin> set Object_prototype_names"
  by (auto simp: is_numeral_def is_digit_def Object_prototype_names_def)

lemma toString_not_inherited: "toString n \<notin> set Object_prototype_names"
  by (rule numeral_not_inherited [OF is_numeral_toString])

lemma tier_6_not_inherited: "''6'' \<notin> set Object_prototype_names"
  by (simp add: Object_prototype_names_def)

text \<open>No inherited name contains the separator of a combination key.\<close>

lemma combo_key_not_inherited: "combo_key p c \<notin> set Object_prototype_names"
proof
  assume "combo_key p c \<in> set Object_prototype_names"
  moreover have "CHR ''|'' \<in> set (combo_key p c)"
    by (simp add: combo_key_def)
  moreover have "\<forall>s \<in> set Object_prototype_names. CHR ''|'' \<notin> set s"
    by (simp add: Object_prototype_names_def)
  ultimately show False by blast
qed

subsection \<open>Price of one item\<close>

lemma js_add_Num_iff: "js_add x (Num b) = NaN \<longleftrightarrow> x = NaN"
  by (cases x) simp_all

lemma js_get_own: "map_of obj k = Some v \<Longrightarrow> js_get obj k = Own v"
  by (simp add: js_get_def)

lemma js_get_Undefined_iff:
  "js_get obj k = Undefined \<longleftrightarrow> map_of obj k = None \<and> k \<notin> set Object_prototype_names"
  by (simp add: js_get_def split: option.splits)

lemma base_price_own:
  "tk \<notin> set Object_prototype_names \<Longrightarrow> base_price (Own tbl) tk = num_of (map_of tbl tk)"
  by (simp add: base_price_def js_get_def num_of_def split: option.splits)

lemma base_price_own_Some: "map_of tbl tk = Some b \<Longrightarrow> base_price (Own tbl) tk = Num b"
  by (simp add: base_price_def js_get_def)

lemma getItemPrice_present:
  assumes "js_get (products pr) (product it) \<noteq> Undefined"
  shows "getItemPrice it tm pr =
           Some \<lparr>price = js_add (js_add (js_add
                      (base_price (js_get (products pr) (product it))
                         (tier_or_default (map_of tm (combo_key (product it) (normalizeColor (color it))))))
                      (Num (if embroideredName it \<noteq> [] then embroideryFee pr else 0)))
                      (Num (fee_or_zero (logoFee pr))))
                      (Num (fee_or_zero (foldingFee pr))),
                 tierKey = tier_or_default (map_of tm (combo_key (product it) (normalizeColor (color it))))\<rparr>"
  using assms by (simp add: getItemPrice_def Let_def)

lemma getItemPrice_known:
  assumes "map_of (products pr) (product it) = Some tbl"
  shows "getItemPrice it tm pr =
           Some \<lparr>price = js_add (js_add (js_add
                      (base_price (Own tbl)
                         (tier_or_default (map_of tm (combo_key (product it) (normalizeColor (color it))))))
                      (Num (if embroideredName it \<noteq> [] then embroideryFee pr else 0)))
                      (Num (fee_or_zero (logoFee pr))))
                      (Num (fee_or_zero (foldingFee pr))),
                 tierKey = tier_or_default (map_of tm (combo_key (product it) (normalizeColor (color it))))\<rparr>"
  using getItemPrice_present [of pr it tm] by (simp add: js_get_own [OF assms])

text \<open>
  The unit price of an item whose product has a table with a base price at the resolved
  tier: the base price, plus the embroidery fee exactly when \<open>embroideredName\<close> is a non-empty
  string, plus the logo fee and the folding fee.
\<close>

lemma getItemPrice_unit_price:
  assumes "map_of (products pr) (product it) = Some tbl"
    and "map_of tbl (tier_or_default (map_of tm (combo_key (product it) (normalizeColor (color it))))) = Some base"
  shows "getItemPrice it tm pr =
           Some \<lparr>price = Num (base + (if embroideredName it \<noteq> [] then embroideryFee pr else 0)
                               + fee_or_zero (logoFee pr) + fee_or_zero (foldingFee pr)),
                 tierKey = tier_or_default (map_of tm (combo_key (product it) (normalizeColor (color it))))\<rparr>"
  using assms by (simp add: getItemPrice_known base_price_own_Some)

text \<open>The scenario 173.58 + 8.00 + 10.00 + 0.75 = 192.33 at tier 18.\<close>

lemma getItemPrice_scenario:
  "getItemPrice (jacket_item ''Black'' ''Dr. Smith'') [(''Better Sweater Jacket|Black'', ''18'')] test_pricing
     = Some \<lparr>price = Num (19233 / 100), tierKey = ''18''\<rparr>"
  by (simp add: getItemPrice_def js_get_def base_price_def jacket_item_def test_pricing_def
        combo_key_def normalizeColor_def GRAY_COLORS_def tier_or_default_def fee_or_zero_def)

text \<open>
  C1. The unit price is the base price at the resolved tier plus the embroidery fee exactly
  when an embroidered name is present, white space not counting, plus the logo and folding
  fees. The code tests the name for being a non-empty string only: an item whose embroidered
  name is a single space, as \<open>groupByEmail\<close> passes it on from a row, is charged the embroidery
  fee (192.33 instead of 184.33), while the order summary of the spreadsheet script, which
  trims the name, does not count it as embroidered.
\<close>

theorem getItemPrice_charges_blank_name:
  "getItemPrice (jacket_item ''Black'' '' '') [(''Better Sweater Jacket|Black'', ''18'')] test_pricing
     = Some \<lparr>price = Num (19233 / 100), tierKey = ''18''\<rparr>
   \<and> getItemPrice (jacket_item ''Black'' '''') [(''Better Sweater Jacket|Black'', ''18'')] test_pricing
     = Some \<lparr>price = Num (18433 / 100), tierKey = ''18''\<rparr>
   \<and> item_of_row (jacket_row ''John'' ''john@test.com'' ''Black'' '' '') = jacket_item ''Black'' '' ''
   \<and> \<not> summary_counts_embroidery '' ''"
  by (simp add: getItemPrice_def js_get_def base_price_def jacket_item_def jacket_row_def
        item_of_row_def string_or_empty_def test_pricing_def combo_key_def normalizeColor_def
        GRAY_COLORS_def tier_or_default_def fee_or_zero_def
        summary_counts_embroidery_def trim_def is_space_def)

text \<open>The tier keys that the program itself produces are decimal numerals.\<close>

lemma getPricingTier_numeral: "getPricingTier q ts = Inr k \<Longrightarrow> is_numeral k"
  by (auto simp: getPricingTier_def tier_loop_find is_numeral_toString split: option.splits if_splits)

lemma update_values: "snd ` set (AList.update k v al) \<subseteq> insert v (snd ` set al)"
  by (induction al) auto

lemma buildTierMap_loop_numerals:
  assumes "buildTierMap_loop es ts acc = Inr tm" and "\<forall>v \<in> snd ` set acc. is_numeral v"
  shows "\<forall>v \<in> snd ` set tm. is_numeral v"
  using assms
proof (induction es arbitrary: acc)
  case Nil
  then show ?case by simp
next
  case (Cons a es)
  obtain k0 n0 where a: "a = (k0, n0)" by (cases a)
  from Cons.prems(1) a obtain t0 where t0: "getPricingTier n0 ts = Inr t0"
    and rest: "buildTierMap_loop es ts (AList.update k0 t0 acc) = Inr tm"
    by (auto split: sum.splits)
  have "is_numeral v" if "v \<in> snd ` set (AList.update k0 t0 acc)" for v
  proof -
    from that update_values [of k0 t0 acc] have "v = t0 \<or> v \<in> snd ` set acc"
      by blast
    then show ?thesis
      using Cons.prems(2) getPricingTier_numeral [OF t0] by blast
  qed
  then have "\<forall>v \<in> snd ` set (AList.update k0 t0 acc). is_numeral v"
    by blast
  from Cons.IH [OF rest this] show ?case .
qed

lemma built_tier_key_numeral:
  assumes "buildTierMap counts ts = Inr tm"
  shows "is_numeral (tier_or_default (map_of tm key))"
proof (cases "map_of tm key")
  case None
  then show ?thesis by (simp add: tier_or_default_def is_numeral_def is_digit_def)
next
  case (Some v)
  then have "v \<in> snd ` set tm"
    by (metis image_eqI map_of_SomeD snd_conv)
  moreover have "\<forall>v \<in> snd ` set tm. is_numeral v"
    using buildTierMap_loop_numerals [of counts ts "[]" tm] assms by (simp add: buildTierMap_def)
  ultimately have "is_numeral v" by blast
  then show ?thesis
    using Some by (auto simp: tier_or_default_def is_numeral_def)
qed

text \<open>
  C10. \<open>getItemPrice\<close> returns its failure value only when the product has no price table:
  exactly when the product name is neither a key of \<open>products\<close> nor the name of an inherited
  member. For a product with a table it returns a result with the resolved tier key, and for
  a tier key that is no inherited name the price of that result is \<open>NaN\<close> exactly when the
  table has no entry for the tier key: the base price lookup is not guarded. The tier key is
  such a name, a decimal numeral, whenever the tier map was built by \<open>buildTierMap\<close>. A
  product name that finds an inherited member is not rejected either: the result has the
  resolved tier key, and its price is \<open>NaN\<close> when that key is a decimal numeral.
\<close>

theorem getItemPrice_null_only_without_table:
  "(getItemPrice it tm pr = None \<longrightarrow> map_of (products pr) (product it) = None)
   \<and> (getItemPrice it tm pr = None \<longleftrightarrow>
        map_of (products pr) (product it) = None \<and> product it \<notin> set Object_prototype_names)
   \<and> (\<forall>tbl. map_of (products pr) (product it) = Some tbl \<longrightarrow>
         (\<exists>p. getItemPrice it tm pr = Some p
              \<and> tierKey p = tier_or_default (map_of tm (combo_key (product it) (normalizeColor (color it))))
              \<and> (tierKey p \<notin> set Object_prototype_names \<longrightarrow>
                    (price p = NaN \<longleftrightarrow> map_of tbl (tierKey p) = None))))
   \<and> (map_of (products pr) (product it) = None \<and> product it \<in> set Object_prototype_names \<longrightarrow>
         (\<exists>p. getItemPrice it tm pr = Some p
              \<and> tierKey p = tier_or_default (map_of tm (combo_key (product it) (normalizeColor (color it))))
              \<and> (is_numeral (tierKey p) \<longrightarrow> price p = NaN)))
   \<and> ((\<exists>counts ts. buildTierMap counts ts = Inr tm) \<longrightarrow>
         is_numeral (tier_or_default (map_of tm (combo_key (product it) (normalizeColor (color it)))))
         \<and> tier_or_default (map_of tm (combo_key (product it) (normalizeColor (color it))))
             \<notin> set Object_prototype_names)"
proof -
  let ?tk = "tier_or_default (map_of tm (combo_key (product it) (normalizeColor (color it))))"
  have null: "getItemPrice it tm pr = None \<longleftrightarrow>
        map_of (products pr) (product it) = None \<and> product it \<notin> set Object_prototype_names"
    by (simp add: getItemPrice_def Let_def js_get_Undefined_iff)
  have known: "\<exists>p. getItemPrice it tm pr = Some p \<and> tierKey p = ?tk
              \<and> (tierKey p \<notin> set Object_prototype_names \<longrightarrow>
                    (price p = NaN \<longleftrightarrow> map_of tbl (tierKey p) = None))"
    if "map_of (products pr) (product it) = Some tbl" for tbl
    by (simp add: getItemPrice_known [OF that] js_add_Num_iff base_price_own num_of_def
             split: option.splits)
  have inherited: "\<exists>p. getItemPrice it tm pr = Some p \<and> tierKey p = ?tk
              \<and> (is_numeral (tierKey p) \<longrightarrow> price p = NaN)"
    if "map_of (products pr) (product it) = None" and "product it \<in> set Object_prototype_names"
  proof -
    have g: "js_get (products pr) (product it) = Inherited"
      using that by (simp add: js_get_def)
    then have "js_get (products pr) (product it) \<noteq> Undefined"
      by simp
    from getItemPrice_present [OF this, of tm] show ?thesis
      by (simp add: g base_price_def js_add_Num_iff)
  qed
  have built: "is_numeral ?tk \<and> ?tk \<notin> set Object_prototype_names"
    if "\<exists>counts ts. buildTierMap counts ts = Inr tm"
    using that built_tier_key_numeral numeral_not_inherited by blast
  show ?thesis
    using null known inherited built by blast
qed

theorem getItemPrice_null_only_without_table_witness:
  "getItemPrice (jacket_item ''Black'' '''') [(''Better Sweater Jacket|Black'', ''99'')] test_pricing
     = Some \<lparr>price = NaN, tierKey = ''99''\<rparr>
   \<and> getItemPrice ((jacket_item ''Black'' '''')\<lparr>product := ''Unknown Product''\<rparr>)
         [(''Unknown Product|Black'', ''6'')] test_pricing = None
   \<and> getItemPrice ((jacket_item ''Black'' '''')\<lparr>product := ''constructor''\<rparr>) [] test_pricing
     = Some \<lparr>price = NaN, tierKey = ''6''\<rparr>"
proof -
  let ?it = "jacket_item ''Black'' ''''"
  let ?un = "?it\<lparr>product := ''Unknown Product''\<rparr>"
  let ?co = "?it\<lparr>product := ''constructor''\<rparr>"
  let ?tm = "[(''Better Sweater Jacket|Black'', ''99'')]"
  have k: "tier_or_default (map_of ?tm (combo_key (product ?it) (normalizeColor (color ?it)))) = ''99''"
    by (simp add: jacket_item_def combo_key_def normalizeColor_def GRAY_COLORS_def tier_or_default_def)
  have k99: "''99'' \<notin> set Object_prototype_names"
    by (simp add: Object_prototype_names_def)
  have t: "map_of (products test_pricing) (product ?it) =
             Some [(''6'', 175), (''18'', 17358 / 100), (''50'', 16268 / 100), (''72'', 15968 / 100)]"
    by (simp add: jacket_item_def test_pricing_def)
  have u: "map_of (products test_pricing) (product ?un) = None
           \<and> product ?un \<notin> set Object_prototype_names"
    by (simp add: test_pricing_def Object_prototype_names_def)
  have c: "map_of (products test_pricing) (product ?co) = None
           \<and> product ?co \<in> set Object_prototype_names"
    by (simp add: test_pricing_def Object_prototype_names_def)
  have kc: "tier_or_default (map_of [] (combo_key (product ?co) (normalizeColor (color ?co)))) = ''6''
            \<and> is_numeral ''6''"
    by (simp add: tier_or_default_def is_numeral_def is_digit_def)
  from getItemPrice_null_only_without_table [of ?it ?tm test_pricing] t k k99
  obtain p where "getItemPrice ?it ?tm test_pricing = Some p" and "tierKey p = ''99''" and "price p = NaN"
    by auto
  then have a: "getItemPrice ?it ?tm test_pricing = Some \<lparr>price = NaN, tierKey = ''99''\<rparr>"
    by (cases p) simp
  have b: "getItemPrice ?un [(''Unknown Product|Black'', ''6'')] test_pricing = None"
    using getItemPrice_null_only_without_table [of ?un "[(''Unknown Product|Black'', ''6'')]" test_pricing] u
    by simp
  from getItemPrice_null_only_without_table [of ?co "[]" test_pricing] c kc
  obtain q where "getItemPrice ?co [] test_pricing = Some q" and "tierKey q = ''6''" and "price q = NaN"
    by auto
  then have "getItemPrice ?co [] test_pricing = Some \<lparr>price = NaN, tierKey = ''6''\<rparr>"
    by (cases q) simp
  then show ?thesis
    using a b by simp
qed

lemma below_floor_resolves_to_floor:
  assumes "ts \<noteq> []" and "sorted_desc ts" and "\<forall>t \<in> set ts. q < minQty t"
  shows "getPricingTier q ts = Inr (toString (Min (minQty ` set ts)))"
proof -
  have "\<not> minQty t \<le> q" if "t \<in> set ts" for t
    using assms(3) that by auto
  then have "find (\<lambda>t. minQty t \<le> q) ts = None"
    unfolding find_None_iff by blast
  then show ?thesis
    by (simp add: getPricingTier_find [OF assms(1)] sorted_desc_last_Min [OF assms(1,2)])
qed

lemma below_last_below_all:
  assumes "ts \<noteq> []" and "sorted_desc ts" and "q < minQty (last ts)" and "t \<in> set ts"
  shows "q < minQty t"
proof -
  have "Min (minQty ` set ts) \<le> minQty t"
    using assms(4) by (intro Min_le) auto
  then show ?thesis
    using sorted_desc_last_Min [OF assms(1,2)] assms(3) by simp
qed

lemma floor_identifier_6_iff: "''6'' = toString n \<longleftrightarrow> n = 6"
  using toString_inj [of 6 n] by (auto simp: toString_values)

text \<open>
  C3, as amended. An item whose product has a price table and whose key is absent from the
  tier map is priced, not rejected, at the fixed tier identifier 6. That identifier is the
  identifier of the floor tier, the tier with the smallest \<open>minQty\<close>, exactly when that
  smallest \<open>minQty\<close> is 6; on a non-empty tier list sorted in descending order it is what
  \<open>getPricingTier\<close> returns for a quantity below every threshold exactly in that case.
\<close>

theorem getItemPrice_absent_key_tier_6:
  assumes "map_of (products pr) (product it) = Some tbl"
    and "map_of tm (combo_key (product it) (normalizeColor (color it))) = None"
  shows "getItemPrice it tm pr =
           Some \<lparr>price = js_add (js_add (js_add (num_of (map_of tbl ''6''))
                      (Num (if embroideredName it \<noteq> [] then embroideryFee pr else 0)))
                      (Num (fee_or_zero (logoFee pr))))
                      (Num (fee_or_zero (foldingFee pr))),
                 tierKey = ''6''\<rparr>
         \<and> (''6'' = toString (Min (minQty ` set (tiers pr))) \<longleftrightarrow> Min (minQty ` set (tiers pr)) = 6)
         \<and> (tiers pr \<noteq> [] \<and> sorted_desc (tiers pr) \<longrightarrow>
              (\<forall>q. (\<forall>t \<in> set (tiers pr). q < minQty t) \<longrightarrow>
                 (getPricingTier q (tiers pr) = Inr ''6'' \<longleftrightarrow> Min (minQty ` set (tiers pr)) = 6)))
         \<and> (tiers pr \<noteq> [] \<and> sorted_desc (tiers pr) \<and> minQty (last (tiers pr)) = 6
              \<longrightarrow> (\<forall>q < 6. getPricingTier q (tiers pr) = Inr ''6''))"
proof -
  have price: "getItemPrice it tm pr =
           Some \<lparr>price = js_add (js_add (js_add (num_of (map_of tbl ''6''))
                      (Num (if embroideredName it \<noteq> [] then embroideryFee pr else 0)))
                      (Num (fee_or_zero (logoFee pr))))
                      (Num (fee_or_zero (foldingFee pr))),
                 tierKey = ''6''\<rparr>"
    using assms
    by (simp add: getItemPrice_known tier_or_default_def base_price_own [OF tier_6_not_inherited])
  have ident: "''6'' = toString (Min (minQty ` set (tiers pr))) \<longleftrightarrow> Min (minQty ` set (tiers pr)) = 6"
    by (rule floor_identifier_6_iff)
  have below: "getPricingTier q (tiers pr) = Inr ''6'' \<longleftrightarrow> Min (minQty ` set (tiers pr)) = 6"
    if "tiers pr \<noteq> []" and "sorted_desc (tiers pr)" and "\<forall>t \<in> set (tiers pr). q < minQty t" for q
    using below_floor_resolves_to_floor [OF that] floor_identifier_6_iff [of "Min (minQty ` set (tiers pr))"]
    by auto
  have old: "getPricingTier q (tiers pr) = Inr ''6''"
    if "tiers pr \<noteq> []" and "sorted_desc (tiers pr)" and "minQty (last (tiers pr)) = 6" and "q < 6" for q
  proof -
    have all: "\<forall>t \<in> set (tiers pr). q < minQty t"
      using below_last_below_all [OF that(1,2), of q] that(3,4) by simp
    have "Min (minQty ` set (tiers pr)) = 6"
      using sorted_desc_last_Min [OF that(1,2)] that(3) by simp
    then show ?thesis
      using below [OF that(1,2) all] by simp
  qed
  show ?thesis
    using price ident below old by blast
qed

theorem getItemPrice_absent_key_tier_6_witness:
  "getItemPrice ((jacket_item ''Black'' '''')\<lparr>product := ''Better Sweater Vest''\<rparr>) [] test_pricing
     = Some \<lparr>price = Num (14363 / 100), tierKey = ''6''\<rparr>
   \<and> getPricingTier 3 (tiers test_pricing) = Inr ''6''
   \<and> Min (minQty ` set (tiers test_pricing)) = 6"
proof -
  let ?it = "(jacket_item ''Black'' '''')\<lparr>product := ''Better Sweater Vest''\<rparr>"
  have t: "map_of (products test_pricing) (product ?it) =
             Some [(''6'', 13288 / 100), (''18'', 13128 / 100), (''50'', 12358 / 100), (''72'', 11988 / 100)]"
    by (simp add: test_pricing_def)
  have h: "tiers test_pricing \<noteq> [] \<and> sorted_desc (tiers test_pricing)
           \<and> (\<forall>t \<in> set (tiers test_pricing). 3 < minQty t)
           \<and> Min (minQty ` set (tiers test_pricing)) = 6"
    by (simp add: test_pricing_def test_tiers_def sorted_desc_def)
  have n: "map_of [] (combo_key (product ?it) (normalizeColor (color ?it))) = (None :: string option)"
    by simp
  from getItemPrice_absent_key_tier_6 [OF t n]
  have p: "getItemPrice ?it [] test_pricing =
           Some \<lparr>price = js_add (js_add (js_add
                      (num_of (map_of [(''6'', 13288 / 100), (''18'', 13128 / 100), (''50'', 12358 / 100), (''72'', 11988 / 100)] ''6''))
                      (Num (if embroideredName ?it \<noteq> [] then embroideryFee test_pricing else 0)))
                      (Num (fee_or_zero (logoFee test_pricing))))
                      (Num (fee_or_zero (foldingFee test_pricing))),
                 tierKey = ''6''\<rparr>"
    and q: "tiers test_pricing \<noteq> [] \<and> sorted_desc (tiers test_pricing) \<longrightarrow>
              (\<forall>q. (\<forall>t \<in> set (tiers test_pricing). q < minQty t) \<longrightarrow>
                 (getPricingTier q (tiers test_pricing) = Inr ''6''
                    \<longleftrightarrow> Min (minQty ` set (tiers test_pricing)) = 6))"
    by blast+
  have "getPricingTier 3 (tiers test_pricing) = Inr ''6''"
    using q h by blast
  then show ?thesis
    using p h by (simp add: num_of_def fee_or_zero_def test_pricing_def jacket_item_def)
qed

lemma toString_12: "toString 12 = ''12''"
  by code_simp

text \<open>
  C3 as stated fails when the floor tier of the configured list is not 6: with tiers 24 and
  12 the default is still 6, for which the price table has no entry.
\<close>

theorem getItemPrice_default_not_floor:
  "getItemPrice (jacket_item ''Black'' '''') [] other_pricing = Some \<lparr>price = NaN, tierKey = ''6''\<rparr>
   \<and> getPricingTier 0 (tiers other_pricing) = Inr ''12''"
  by (simp add: getItemPrice_def js_get_def base_price_def Object_prototype_names_def
        jacket_item_def other_pricing_def combo_key_def normalizeColor_def
        GRAY_COLORS_def tier_or_default_def fee_or_zero_def getPricingTier_def toString_12)

subsection \<open>Colour normalisation at counting and at pricing\<close>

lemma count_loop_map_of:
  "map_of (count_loop rs acc) k =
     (if map_of acc k = None
         \<and> filter (\<lambda>r. Product r \<noteq> [] \<and> combo_key (Product r) (normalizeColor (Color r)) = k) rs = []
      then None
      else Some (count_or_zero (map_of acc k)
                 + length (filter (\<lambda>r. Product r \<noteq> [] \<and> combo_key (Product r) (normalizeColor (Color r)) = k) rs)))"
proof (induction rs arbitrary: acc)
  case Nil
  then show ?case by (simp add: count_or_zero_def split: option.splits)
next
  case (Cons r rs)
  show ?case
    by (auto simp: Cons.IH Let_def update_conv' count_or_zero_def split: option.splits)
qed

lemma countByProductColor_map_of:
  "map_of (countByProductColor rows) k =
     (if filter (\<lambda>r. Product r \<noteq> [] \<and> combo_key (Product r) (normalizeColor (Color r)) = k) rows = []
      then None
      else Some (length (filter (\<lambda>r. Product r \<noteq> [] \<and> combo_key (Product r) (normalizeColor (Color r)) = k) rows)))"
  by (simp add: countByProductColor_def count_loop_map_of count_or_zero_def)

lemma distinct_count_loop:
  "distinct (map fst acc) \<Longrightarrow> distinct (map fst (count_loop rs acc))"
  by (induction rs arbitrary: acc) (simp_all add: Let_def distinct_update)

lemma distinct_countByProductColor: "distinct (map fst (countByProductColor rows))"
  by (simp add: countByProductColor_def distinct_count_loop)

lemma getItemPrice_same_combo:
  assumes "product i1 = product i2"
    and "normalizeColor (color i1) = normalizeColor (color i2)"
    and "(embroideredName i1 = []) = (embroideredName i2 = [])"
  shows "getItemPrice i1 tm pr = getItemPrice i2 tm pr"
  using assms by (simp add: getItemPrice_def Let_def)

lemma eligible_select_combos:
  assumes "distinct (map fst counts)" and "map_of counts key = Some n"
    and "ign \<or> MIN_QUANTITY \<le> n"
  shows "map_of (eligible (select_combos ign counts)) key = Some n
         \<and> distinct (map fst (eligible (select_combos ign counts)))"
proof (cases ign)
  case True
  then show ?thesis using assms by (simp add: select_combos_def)
next
  case False
  then have m: "MIN_QUANTITY \<le> n" using assms(3) by simp
  have "eligible (select_combos ign counts) = filter (\<lambda>(k, n). MIN_QUANTITY \<le> n) counts"
    using False by (simp add: select_combos_def filterByMinimum_distinct [OF assms(1)])
  then show ?thesis
    using assms(1,2) m
    by (simp add: map_of_filter_distinct [OF assms(1)] distinct_map_filter)
qed

lemma tier_map_entry:
  assumes "ts \<noteq> []" and "distinct (map fst counts)" and "map_of counts key = Some n"
  shows "\<exists>tm k. buildTierMap counts ts = Inr tm \<and> getPricingTier n ts = Inr k
                \<and> map_of tm key = Some k \<and> is_numeral k"
proof -
  from buildTierMap_loop_distinct [OF assms(1,2), of "[]"]
  obtain tm where tm: "buildTierMap counts ts = Inr tm"
    and m: "map_of tm key =
              (case map_of counts key of
                 None \<Rightarrow> map_of [] key
               | Some n \<Rightarrow> (case getPricingTier n ts of Inl e \<Rightarrow> None | Inr t \<Rightarrow> Some t))"
    by (auto simp: buildTierMap_def)
  obtain k where k: "getPricingTier n ts = Inr k" and num: "is_numeral k"
    using getPricingTier_resolved [OF assms(1), of n] is_numeral_toString by auto
  have "map_of tm key = Some k"
    using m assms(3) k by simp
  then show ?thesis using tm k num by blast
qed

text \<open>
  The key that \<open>getItemPrice\<close> reads in the tier map is the key under which
  \<open>countByProductColor\<close> counted the row. So an item of a row of a non-empty product that has
  a price table, priced with the tier map that is built from the counts of the eligible
  combinations, gets the tier that \<open>getPricingTier\<close> resolves for the number of rows of its
  product and normalised colour, and the base price of that tier, whenever its combination
  is eligible (the count reaches \<open>MIN_QUANTITY\<close>, or the minimum is ignored).
\<close>

lemma pricing_reads_counting_key:
  assumes "r \<in> set rows" and "Product r \<noteq> []" and "ts \<noteq> []"
    and "map_of (products pr) (Product r) = Some tbl"
    and "ign \<or> MIN_QUANTITY \<le>
           length (filter (\<lambda>x. Product x \<noteq> [] \<and> combo_key (Product x) (normalizeColor (Color x))
                                  = combo_key (Product r) (normalizeColor (Color r))) rows)"
  shows "\<exists>tm k. map_of (countByProductColor rows) (combo_key (Product r) (normalizeColor (Color r)))
               = Some (length (filter (\<lambda>x. Product x \<noteq> [] \<and> combo_key (Product x) (normalizeColor (Color x))
                                  = combo_key (Product r) (normalizeColor (Color r))) rows))
           \<and> buildTierMap (eligible (select_combos ign (countByProductColor rows))) ts = Inr tm
           \<and> getPricingTier
                (length (filter (\<lambda>x. Product x \<noteq> [] \<and> combo_key (Product x) (normalizeColor (Color x))
                                  = combo_key (Product r) (normalizeColor (Color r))) rows)) ts = Inr k
           \<and> getItemPrice (item_of_row r) tm pr =
               Some \<lparr>price = js_add (js_add (js_add (num_of (map_of tbl k))
                          (Num (if embroideredName (item_of_row r) \<noteq> [] then embroideryFee pr else 0)))
                          (Num (fee_or_zero (logoFee pr))))
                          (Num (fee_or_zero (foldingFee pr))),
                     tierKey = k\<rparr>"
proof -
  let ?key = "combo_key (Product r) (normalizeColor (Color r))"
  let ?n = "length (filter (\<lambda>x. Product x \<noteq> [] \<and> combo_key (Product x) (normalizeColor (Color x)) = ?key) rows)"
  let ?counts = "countByProductColor rows"
  have "filter (\<lambda>x. Product x \<noteq> [] \<and> combo_key (Product x) (normalizeColor (Color x)) = ?key) rows \<noteq> []"
    using assms(1,2) by (auto simp: filter_empty_conv)
  then have c: "map_of ?counts ?key = Some ?n"
    by (simp add: countByProductColor_map_of)
  from eligible_select_combos [OF distinct_countByProductColor c assms(5)]
  have e: "map_of (eligible (select_combos ign ?counts)) ?key = Some ?n"
    and d: "distinct (map fst (eligible (select_combos ign ?counts)))"
    by simp_all
  from tier_map_entry [OF assms(3) d e]
  obtain tm k where tm: "buildTierMap (eligible (select_combos ign ?counts)) ts = Inr tm"
    and k: "getPricingTier ?n ts = Inr k" and mk: "map_of tm ?key = Some k" and num: "is_numeral k"
    by blast
  have tk: "tier_or_default (map_of tm ?key) = k"
    using mk num by (auto simp: tier_or_default_def is_numeral_def)
  have p: "map_of (products pr) (product (item_of_row r)) = Some tbl"
    using assms(4) by (simp add: item_of_row_def)
  have key: "combo_key (product (item_of_row r)) (normalizeColor (color (item_of_row r))) = ?key"
    by (simp add: item_of_row_def)
  have "getItemPrice (item_of_row r) tm pr =
               Some \<lparr>price = js_add (js_add (js_add (num_of (map_of tbl k))
                          (Num (if embroideredName (item_of_row r) \<noteq> [] then embroideryFee pr else 0)))
                          (Num (fee_or_zero (logoFee pr))))
                          (Num (fee_or_zero (foldingFee pr))),
                     tierKey = k\<rparr>"
    by (simp add: getItemPrice_known [OF p] key tk base_price_own [OF numeral_not_inherited [OF num]])
  then show ?thesis
    using c tm k by blast
qed

text \<open>
  The scenario of five rows of each gray variant: one combined count of 10, and both
  variants at the same tier and price. With nine rows of each the combined count is 18 and
  both are priced at the tier of 18, which neither variant would reach alone.
\<close>

lemma gray_rows_counts: "countByProductColor gray_rows = [(''Better Sweater Jacket|Gray'', 10)]"
  by code_simp

lemma gray_rows_18_counts: "countByProductColor gray_rows_18 = [(''Better Sweater Jacket|Gray'', 18)]"
  by code_simp

lemma gray_rows_priced:
  "buildTierMap (eligible (select_combos False (countByProductColor gray_rows))) test_tiers
     = Inr [(''Better Sweater Jacket|Gray'', ''6'')]
   \<and> getItemPrice (item_of_row (jacket_row ''Ann'' ''ann@test.com'' ''Birch White'' ''''))
        [(''Better Sweater Jacket|Gray'', ''6'')] test_pricing
      = Some \<lparr>price = Num (18575 / 100), tierKey = ''6''\<rparr>
   \<and> getItemPrice (item_of_row (jacket_row ''Bob'' ''bob@test.com'' ''Stonewash'' ''''))
        [(''Better Sweater Jacket|Gray'', ''6'')] test_pricing
      = Some \<lparr>price = Num (18575 / 100), tierKey = ''6''\<rparr>"
  by (simp add: gray_rows_counts select_combos_def MIN_QUANTITY_def filterByMinimum_def
        buildTierMap_def getPricingTier_def test_tiers_def toString_values
        getItemPrice_def js_get_def base_price_def jacket_row_def item_of_row_def
        string_or_empty_def test_pricing_def combo_key_def normalizeColor_def GRAY_COLORS_def
        tier_or_default_def fee_or_zero_def)

lemma gray_rows_18_priced:
  "buildTierMap (eligible (select_combos False (countByProductColor gray_rows_18))) test_tiers
     = Inr [(''Better Sweater Jacket|Gray'', ''18'')]
   \<and> getItemPrice (item_of_row (jacket_row ''Ann'' ''ann@test.com'' ''Birch White'' ''''))
        [(''Better Sweater Jacket|Gray'', ''18'')] test_pricing
      = Some \<lparr>price = Num (18433 / 100), tierKey = ''18''\<rparr>
   \<and> getItemPrice (item_of_row (jacket_row ''Bob'' ''bob@test.com'' ''Stonewash'' ''''))
        [(''Better Sweater Jacket|Gray'', ''18'')] test_pricing
      = Some \<lparr>price = Num (18433 / 100), tierKey = ''18''\<rparr>"
  by (simp add: gray_rows_18_counts select_combos_def MIN_QUANTITY_def filterByMinimum_def
        buildTierMap_def getPricingTier_def test_tiers_def toString_values
        getItemPrice_def js_get_def base_price_def jacket_row_def item_of_row_def
        string_or_empty_def test_pricing_def combo_key_def normalizeColor_def GRAY_COLORS_def
        tier_or_default_def fee_or_zero_def)

text \<open>
  C8. Two items of the same product and embroidery status whose colours normalise to the
  same colour are counted under one key and get the same tier and the same unit price. The
  code gives them the same tier, but not always the same price: five Birch White rows with
  a blank embroidered name (a single space) and five Stonewash rows with none are counted
  together as 10 pieces of Gray and resolved to tier 6, and neither name counts as
  embroidered for the order summary, yet the first are priced 193.75 and the second 185.75.
\<close>

theorem same_status_items_priced_differently:
  "countByProductColor blank_gray_rows = [(''Better Sweater Jacket|Gray'', 10)]
   \<and> buildTierMap (eligible (select_combos False (countByProductColor blank_gray_rows))) test_tiers
     = Inr [(''Better Sweater Jacket|Gray'', ''6'')]
   \<and> getItemPrice (item_of_row (jacket_row ''Ann'' ''ann@test.com'' ''Birch White'' '' ''))
        [(''Better Sweater Jacket|Gray'', ''6'')] test_pricing
      = Some \<lparr>price = Num (19375 / 100), tierKey = ''6''\<rparr>
   \<and> getItemPrice (item_of_row (jacket_row ''Bob'' ''bob@test.com'' ''Stonewash'' ''''))
        [(''Better Sweater Jacket|Gray'', ''6'')] test_pricing
      = Some \<lparr>price = Num (18575 / 100), tierKey = ''6''\<rparr>
   \<and> \<not> summary_counts_embroidery '' '' \<and> \<not> summary_counts_embroidery ''''"
proof -
  have "countByProductColor blank_gray_rows = [(''Better Sweater Jacket|Gray'', 10)]"
    by code_simp
  then show ?thesis
    by (simp add: select_combos_def MIN_QUANTITY_def filterByMinimum_def
        buildTierMap_def getPricingTier_def test_tiers_def toString_values
        getItemPrice_def js_get_def base_price_def jacket_row_def item_of_row_def
        string_or_empty_def test_pricing_def combo_key_def normalizeColor_def GRAY_COLORS_def
        tier_or_default_def fee_or_zero_def summary_counts_embroidery_def trim_def is_space_def)
qed

subsection \<open>Grouping rows by customer\<close>


lemma keys_group_step:
  "fst ` set (push_item e it (ensure_customer e r g)) = insert e (fst ` set g)"
proof (cases "map_of g e")
  case None
  then show ?thesis
    by (simp add: push_item_def ensure_customer_def dom_map_entry dom_update)
next
  case (Some c)
  then have "e \<in> fst ` set g"
    by (metis map_of_eq_None_iff option.distinct(1))
  then show ?thesis
    using Some by (auto simp: push_item_def ensure_customer_def dom_map_entry)
qed












subsection \<open>Customer totals\<close>

lemma priced_items_Cons:
  "priced_items el tm pr (it # its) =
     (if item_eligible el it
      then (case getItemPrice it tm pr of
              None \<Rightarrow> priced_items el tm pr its
            | Some p \<Rightarrow> p # priced_items el tm pr its)
      else priced_items el tm pr its)"
  by (simp add: priced_items_def map_filter_simps split: option.splits)

lemma priced_items_Nil: "priced_items el tm pr [] = []"
  by (simp add: priced_items_def map_filter_simps)

lemma items_loop_total:
  "customerTotal (items_loop its el tm pr acc)
     = foldl js_add (customerTotal acc) (map price (priced_items el tm pr its))"
  by (induction its arbitrary: acc)
     (auto simp: priced_items_Cons priced_items_Nil item_eligible_def split: option.splits)

lemma items_loop_lines:
  "length (lineItems (items_loop its el tm pr acc))
     = length (lineItems acc) + length (priced_items el tm pr its)"
  by (induction its arbitrary: acc)
     (auto simp: priced_items_Cons priced_items_Nil item_eligible_def split: option.splits)

lemma customer_invoice_skipped:
  "customer_invoice el tm pr cust = None \<longleftrightarrow> priced_items el tm pr (items cust) = []"
proof -
  have "length (lineItems (items_loop (items cust) el tm pr \<lparr>lineItems = [], customerTotal = Num 0, excludedCount = 0\<rparr>))
          = length (priced_items el tm pr (items cust))"
    by (simp add: items_loop_lines)
  then have "lineItems (items_loop (items cust) el tm pr \<lparr>lineItems = [], customerTotal = Num 0, excludedCount = 0\<rparr>) = []
        \<longleftrightarrow> priced_items el tm pr (items cust) = []"
    by (metis length_0_conv)
  then show ?thesis
    by (simp add: customer_invoice_def Let_def)
qed

text \<open>
  C4, as amended. For a customer with at least one item that is in an eligible combination
  and has a unit price, an invoice is computed: its subtotal is the sum of those unit prices,
  the tax is the subtotal times the tax rate, the processing fee is 2.9 percent of subtotal
  plus tax, plus 0.30, and the total is subtotal plus tax plus fee. A subtotal of 300.00 at
  the rate 0.0725 gives the tax 21.75 and the fee 9.63075.
\<close>

theorem customer_invoice_totals:
  assumes "priced_items el tm pr (items cust) \<noteq> []"
  shows "(\<exists>inv. customer_invoice el tm pr cust = Some inv
           \<and> subtotal inv = foldl js_add (Num 0) (map price (priced_items el tm pr (items cust)))
           \<and> tax inv = js_mul (subtotal inv) (Num (taxRate pr))
           \<and> stripeFee inv = js_add (js_mul (js_add (subtotal inv) (tax inv)) (Num (29 / 1000))) (Num (3 / 10))
           \<and> orderTotal inv = js_add (js_add (subtotal inv) (tax inv)) (stripeFee inv)
           \<and> (\<forall>s. subtotal inv = Num s \<longrightarrow>
                  tax inv = Num (s * taxRate pr)
                \<and> stripeFee inv = Num ((s + s * taxRate pr) * (29 / 1000) + 3 / 10)
                \<and> orderTotal inv = Num (s + s * taxRate pr + ((s + s * taxRate pr) * (29 / 1000) + 3 / 10))))
       \<and> calculateTax (Num 300) (Num (725 / 10000)) = Num (2175 / 100)
       \<and> calculateStripeFee (js_add (Num 300) (calculateTax (Num 300) (Num (725 / 10000))))
           = Num (963075 / 100000)"
proof -
  let ?acc = "items_loop (items cust) el tm pr \<lparr>lineItems = [], customerTotal = Num 0, excludedCount = 0\<rparr>"
  have "length (lineItems ?acc) = length (priced_items el tm pr (items cust))"
    by (simp add: items_loop_lines)
  then have l: "lineItems ?acc \<noteq> []"
    using assms by (metis length_0_conv)
  have t: "customerTotal ?acc = foldl js_add (Num 0) (map price (priced_items el tm pr (items cust)))"
    by (simp add: items_loop_total)
  have "\<exists>inv. customer_invoice el tm pr cust = Some inv
           \<and> subtotal inv = foldl js_add (Num 0) (map price (priced_items el tm pr (items cust)))
           \<and> tax inv = js_mul (subtotal inv) (Num (taxRate pr))
           \<and> stripeFee inv = js_add (js_mul (js_add (subtotal inv) (tax inv)) (Num (29 / 1000))) (Num (3 / 10))
           \<and> orderTotal inv = js_add (js_add (subtotal inv) (tax inv)) (stripeFee inv)
           \<and> (\<forall>s. subtotal inv = Num s \<longrightarrow>
                  tax inv = Num (s * taxRate pr)
                \<and> stripeFee inv = Num ((s + s * taxRate pr) * (29 / 1000) + 3 / 10)
                \<and> orderTotal inv = Num (s + s * taxRate pr + ((s + s * taxRate pr) * (29 / 1000) + 3 / 10)))"
    using l t by (simp add: customer_invoice_def Let_def calculateTax_def calculateStripeFee_def)
  moreover have "calculateTax (Num 300) (Num (725 / 10000)) = Num (2175 / 100)"
    by (simp add: calculateTax_def)
  moreover have "calculateStripeFee (js_add (Num 300) (calculateTax (Num 300) (Num (725 / 10000))))
           = Num (963075 / 100000)"
    by (simp add: calculateTax_def calculateStripeFee_def)
  ultimately show ?thesis by blast
qed

text \<open>
  C4 as stated gives the fee of the scenario as 9.6308; the code computes 9.63075. And a
  customer whose only eligible item has a product without price table gets no invoice at all.
\<close>

theorem stripe_fee_scenario_not_9_6308:
  "calculateStripeFee (js_add (Num 300) (calculateTax (Num 300) (Num (725 / 10000))))
     \<noteq> Num (96308 / 10000)
   \<and> item_eligible [(''Mystery|Black'', 6)] ((jacket_item ''Black'' '''')\<lparr>product := ''Mystery''\<rparr>)
   \<and> customer_invoice [(''Mystery|Black'', 6)] [(''Mystery|Black'', ''6'')] test_pricing
         \<lparr>name = ''John'', phone = ''555-1234'', email = ''john@test.com'',
          items = [(jacket_item ''Black'' '''')\<lparr>product := ''Mystery''\<rparr>]\<rparr> = None"
  by (simp add: calculateTax_def calculateStripeFee_def customer_invoice_def item_eligible_def
        getItemPrice_def js_get_def Object_prototype_names_def test_pricing_def jacket_item_def
        combo_key_def normalizeColor_def GRAY_COLORS_def count_or_zero_def)

lemma flat_priced:
  "priced_items [(''Jacket|Black'', 6)] [(''Jacket|Black'', ''6'')] flat_pricing (items flat_customer)
     = [\<lparr>price = Num 150, tierKey = ''6''\<rparr>, \<lparr>price = Num 150, tierKey = ''6''\<rparr>]"
  by (simp add: priced_items_def map_filter_simps item_eligible_def getItemPrice_def js_get_def
        base_price_def flat_pricing_def flat_customer_def jacket_item_def combo_key_def
        normalizeColor_def GRAY_COLORS_def tier_or_default_def fee_or_zero_def count_or_zero_def)

theorem customer_invoice_totals_witness:
  "(\<exists>inv. customer_invoice [(''Jacket|Black'', 6)] [(''Jacket|Black'', ''6'')] flat_pricing flat_customer = Some inv
        \<and> subtotal inv = Num 300 \<and> tax inv = Num (2175 / 100)
        \<and> stripeFee inv = Num (963075 / 100000) \<and> orderTotal inv = Num (33138075 / 100000))"
proof -
  have ne: "priced_items [(''Jacket|Black'', 6)] [(''Jacket|Black'', ''6'')] flat_pricing (items flat_customer) \<noteq> []"
    by (simp add: flat_priced)
  from customer_invoice_totals [OF ne]
  obtain inv where i: "customer_invoice [(''Jacket|Black'', 6)] [(''Jacket|Black'', ''6'')] flat_pricing flat_customer = Some inv"
    and s: "subtotal inv = foldl js_add (Num 0) (map price
              (priced_items [(''Jacket|Black'', 6)] [(''Jacket|Black'', ''6'')] flat_pricing (items flat_customer)))"
    and r: "\<forall>s. subtotal inv = Num s \<longrightarrow>
                  tax inv = Num (s * taxRate flat_pricing)
                \<and> stripeFee inv = Num ((s + s * taxRate flat_pricing) * (29 / 1000) + 3 / 10)
                \<and> orderTotal inv = Num (s + s * taxRate flat_pricing + ((s + s * taxRate flat_pricing) * (29 / 1000) + 3 / 10))"
    by blast
  have s300: "subtotal inv = Num 300"
    using s by (simp add: flat_priced)
  with r have "tax inv = Num (300 * taxRate flat_pricing)
                \<and> stripeFee inv = Num ((300 + 300 * taxRate flat_pricing) * (29 / 1000) + 3 / 10)
                \<and> orderTotal inv = Num (300 + 300 * taxRate flat_pricing + ((300 + 300 * taxRate flat_pricing) * (29 / 1000) + 3 / 10))"
    by blast
  then have "tax inv = Num (2175 / 100) \<and> stripeFee inv = Num (963075 / 100000)
             \<and> orderTotal inv = Num (33138075 / 100000)"
    by (simp add: flat_pricing_def)
  then show ?thesis using i s300 by blast
qed

end
